theory Spec2Isabelle
  imports Main
begin

section \<open>Python values, types and exceptions\<close>

text \<open>
  The handlers of \<^verbatim>\<open>traits/trait_handlers.py\<close> inspect the candidate value only through
  \<^verbatim>\<open>type(value)\<close>, \<^verbatim>\<open>isinstance\<close>, \<^verbatim>\<open>len\<close>, indexing, slicing of strings, equality and
  dictionary membership. The values below are the builtin values those operations are
  applied to. A float is kept as the three fields of its IEEE-754 binary64 pattern. A
  character of a \<open>string\<close> stands for one code point of a Python \<^verbatim>\<open>str\<close>.
\<close>

datatype pytype = TNoneType | TBool | TInt | TFloat | TComplex | TStr | TTuple | TList | TDict

datatype pyfloat = Float64 (sign_bit: bool) (exponent: nat) (fraction: nat)

text \<open>
  The number a float stands for, as an integer multiple of \<open>2 ^ -1074\<close> (the smallest
  positive double), or an infinity (\<open>Infinite True\<close> is the negative one) or a NaN. The
  same unit measures an \<^verbatim>\<open>int\<close>, so that \<open>float_value f = int_value i\<close> says that \<open>f\<close> is
  exactly \<open>i\<close>.
\<close>

datatype exact_value = Finite int | Infinite bool | NaN

fun float_value :: "pyfloat \<Rightarrow> exact_value" where
  "float_value (Float64 s e m) =
     (if e = 2047 then (if m = 0 then Infinite s else NaN)
      else Finite ((if s then - 1 else 1) * int (if e = 0 then m else (2 ^ 52 + m) * 2 ^ (e - 1))))"

definition int_value :: "int \<Rightarrow> exact_value" where
  "int_value i = Finite (i * 2 ^ 1074)"

datatype pyvalue =
    VNone
  | VBool bool
  | VInt int
  | VFloat pyfloat
  | VComplex pyfloat pyfloat
  | VStr string
  | VTuple "pyvalue list"
  | VList "pyvalue list"
  | VDict "(pyvalue \<times> pyvalue) list"

text \<open>\<^verbatim>\<open>type(value)\<close>.\<close>

fun type_of :: "pyvalue \<Rightarrow> pytype" where
  "type_of VNone = TNoneType"
| "type_of (VBool b) = TBool"
| "type_of (VInt i) = TInt"
| "type_of (VFloat f) = TFloat"
| "type_of (VComplex re im) = TComplex"
| "type_of (VStr s) = TStr"
| "type_of (VTuple xs) = TTuple"
| "type_of (VList xs) = TList"
| "type_of (VDict kvs) = TDict"

text \<open>
  \<^verbatim>\<open>issubclass(a, b)\<close> on the builtin types above: every type is a subclass of itself, and
  \<^verbatim>\<open>bool\<close> is a subclass of \<^verbatim>\<open>int\<close>.
\<close>

fun issubclass :: "pytype \<Rightarrow> pytype \<Rightarrow> bool" where
  "issubclass TBool TInt = True"
| "issubclass a b = (a = b)"

text \<open>
  Whether a value can be a dictionary key: lists and dictionaries are unhashable, a tuple
  is hashable when its items are.
\<close>

fun hashable :: "pyvalue \<Rightarrow> bool" where
  "hashable (VList xs) = False"
| "hashable (VDict kvs) = False"
| "hashable (VTuple xs) = list_all hashable xs"
| "hashable v = True"

text \<open>
  Python's \<^verbatim>\<open>==\<close> on these values. Booleans, integers, floats and complex numbers are
  compared as numbers, whatever their types (\<^verbatim>\<open>True == 1 == 1.0\<close>), and a NaN equals
  nothing; tuples and lists are compared item by item; two dictionaries are equal when
  they have as many entries and every entry of the first has an equal key with an equal
  value in the second. Values of different kinds are unequal. Object identity is not
  modelled: two values written in the model are two objects.
\<close>

fun num_of :: "pyvalue \<Rightarrow> (exact_value \<times> exact_value) option" where
  "num_of (VBool b) = Some (int_value (if b then 1 else 0), Finite 0)"
| "num_of (VInt i) = Some (int_value i, Finite 0)"
| "num_of (VFloat f) = Some (float_value f, Finite 0)"
| "num_of (VComplex re im) = Some (float_value re, float_value im)"
| "num_of v = None"

definition num_eq :: "(exact_value \<times> exact_value) option \<Rightarrow> (exact_value \<times> exact_value) option \<Rightarrow> bool" where
  "num_eq a b =
     (case a of
        None \<Rightarrow> False
      | Some (x, y) \<Rightarrow> a = b \<and> x \<noteq> NaN \<and> y \<noteq> NaN)"

fun py_eq :: "pyvalue \<Rightarrow> pyvalue \<Rightarrow> bool" where
  "py_eq VNone b = (b = VNone)"
| "py_eq (VStr s) b = (b = VStr s)"
| "py_eq (VTuple xs) b = (case b of VTuple ys \<Rightarrow> list_all2 py_eq xs ys | _ \<Rightarrow> False)"
| "py_eq (VList xs) b = (case b of VList ys \<Rightarrow> list_all2 py_eq xs ys | _ \<Rightarrow> False)"
| "py_eq (VDict kvs) b =
     (case b of
        VDict kvs' \<Rightarrow>
          length kvs = length kvs'
          \<and> list_all (\<lambda>kv. list_ex (\<lambda>kv'. py_eq (fst kv) (fst kv') \<and> py_eq (snd kv) (snd kv')) kvs') kvs
      | _ \<Rightarrow> False)"
| "py_eq (VBool x) b = num_eq (num_of (VBool x)) (num_of b)"
| "py_eq (VInt x) b = num_eq (num_of (VInt x)) (num_of b)"
| "py_eq (VFloat x) b = num_eq (num_of (VFloat x)) (num_of b)"
| "py_eq (VComplex x y) b = num_eq (num_of (VComplex x y)) (num_of b)"

text \<open>
  \<^verbatim>\<open>TraitError\<close> is the only exception class the handlers raise themselves. Its arguments
  tell the error raised by \<^verbatim>\<open>self.error(object, name, value)\<close> (\<open>Invalid\<close>) from
  \<^verbatim>\<open>TraitError("Unmappable")\<close>. The other constructors are the interpreter's exceptions
  that the handlers catch or let through.
\<close>

datatype trait_error = Unmappable | Invalid nat string pyvalue

datatype pyexn =
    TraitError trait_error
  | TypeError
  | KeyError
  | IndexError
  | AttributeError
  | OverflowError
  | Raised string

fun is_TraitError :: "pyexn \<Rightarrow> bool" where
  "is_TraitError (TraitError e) = True"
| "is_TraitError x = False"

text \<open>
  Modelled from the spec: \<^verbatim>\<open>TraitHandler.error\<close> is inherited from
  \<^verbatim>\<open>traits/trait_handler.py\<close>, which is not among the sources. It raises the validation
  error carrying the owner, the attribute name and the candidate; the description text
  is left out.
\<close>

definition error :: "nat \<Rightarrow> string \<Rightarrow> pyvalue \<Rightarrow> pyexn" where
  "error object name v = TraitError (Invalid object name v)"

section \<open>The store\<close>

text \<open>
  What the handlers mutate after construction lives in a store, keyed by object identity:
  the prefix caches \<^verbatim>\<open>values_\<close> and \<^verbatim>\<open>_map\<close> of \<^verbatim>\<open>TraitPrefixList\<close> and
  \<^verbatim>\<open>TraitPrefixMap\<close>, the \<^verbatim>\<open>has_items\<close> attribute of \<^verbatim>\<open>TraitList\<close> and \<^verbatim>\<open>TraitDict\<close>
  objects, and the attributes of the owning objects written by \<^verbatim>\<open>setattr\<close>. \<open>next_id\<close> is
  the identity the next constructed object gets.
\<close>

record store =
  next_id :: nat
  has_items_attr :: "nat \<Rightarrow> bool"
  caches :: "nat \<Rightarrow> (string \<rightharpoonup> string)"
  attrs :: "nat \<times> string \<Rightarrow> pyvalue option"

section \<open>Fast-path descriptors\<close>

text \<open>
  Modelled from the spec: the members of \<^verbatim>\<open>ValidateTrait\<close> (\<^verbatim>\<open>traits/constants.py\<close>, not
  among the sources) that this file names.
\<close>

datatype ValidateTrait =
    VT_coerce | VT_cast | VT_function | VT_enum | VT_prefix_map | VT_map
  | VT_tuple | VT_complex | VT_slow

text \<open>
  A descriptor is a tuple headed by its kind. \<open>FV k ts\<close> is \<^verbatim>\<open>(k, t1, t2, ...)\<close> with types
  as the remaining items; \<open>FVData k\<close> is \<^verbatim>\<open>(k, payload, ...)\<close> with a payload nothing in this
  file reads back; \<open>FVComplex fvs\<close> is \<^verbatim>\<open>(ValidateTrait.complex, (fv1, fv2, ...))\<close>;
  \<open>FVSlow\<close> is \<^verbatim>\<open>(ValidateTrait.slow, self)\<close>.
\<close>

datatype fast_validate =
    FV ValidateTrait "pytype list"
  | FVData ValidateTrait
  | FVComplex "fast_validate list"
  | FVSlow

text \<open>
  Modelled from the spec: \<^verbatim>\<open>CoercableTypes\<close> is imported from \<^verbatim>\<open>traits/trait_base.py\<close>,
  which is not among the sources. The table is the one of the class docstring of
  \<^verbatim>\<open>TraitCoerceType\<close>: complex takes float and int, float takes int.
\<close>

fun CoercableTypes :: "pytype \<Rightarrow> fast_validate option" where
  "CoercableTypes TFloat = Some (FV VT_coerce [TFloat, TInt])"
| "CoercableTypes TComplex = Some (FV VT_coerce [TComplex, TFloat, TInt])"
| "CoercableTypes t = None"

section \<open>Handlers\<close>

text \<open>
  One constructor per handler class, holding the attributes its \<^verbatim>\<open>__init__\<close> assigns.
  \<open>TraitPrefixList\<close> and \<open>TraitPrefixMap\<close> hold the identity of their cache dictionary,
  \<open>TraitList\<close> and \<open>TraitDict\<close> their own identity. A \<open>ctrait\<close> is what \<^verbatim>\<open>trait_from\<close>
  returns: an object whose \<^verbatim>\<open>handler\<close> attribute is a handler or \<^verbatim>\<open>None\<close>.
\<close>

datatype handler =
    TraitCoerceType (aType: pytype) (coerce_fv: fast_validate)
  | TraitFunction (aFunc: "nat \<Rightarrow> string \<Rightarrow> pyvalue \<Rightarrow> pyexn + pyvalue")
  | TraitEnum (enum_values: "pyvalue list")
  | TraitPrefixList (prefix_values: "string list") (values_cache: nat)
  | TraitMap (map_dict: "(pyvalue \<times> pyvalue) list")
  | TraitPrefixMap (prefix_map_dict: "(string \<times> pyvalue) list") (map_cache: nat)
  | TraitCompound
      (handlers: "handler list")
      (compound_is_mapped: bool)
      (compound_has_items: bool)
      (reversable: bool)
      (validates: "handler list")
      (slow_validates: "handler list")
      (mapped_handlers: "handler list option")
      (compound_fv: "fast_validate option")
      (post_setattrs: "handler list option")
  | TraitTuple (tuple_types: "ctrait list")
  | TraitList (list_id: nat) (item_trait: ctrait) (minlen: int) (maxlen: int)
  | TraitDict (dict_id: nat) (key_trait: ctrait) (value_trait: ctrait) (value_handler: handler)
and ctrait = CTrait (handler_of: "handler option")

text \<open>
  The collaborators that are not part of this file: calling a type on a value (other
  than the numeric conversions below), the constructors of the observable containers, and the
  owning object's reaction to an attribute assignment (\<open>None\<close>: the assignment is
  carried out; \<open>Some e\<close>: it raises \<open>e\<close>).
\<close>

record externals =
  call_type :: "pytype \<Rightarrow> pyvalue \<Rightarrow> pyexn + pyvalue"
  TraitListObject :: "handler \<Rightarrow> store \<Rightarrow> nat \<Rightarrow> string \<Rightarrow> pyvalue list \<Rightarrow> (pyexn + pyvalue) \<times> store"
  TraitDictObject :: "handler \<Rightarrow> store \<Rightarrow> nat \<Rightarrow> string \<Rightarrow> (pyvalue \<times> pyvalue) list \<Rightarrow> (pyexn + pyvalue) \<times> store"
  setattr_raises :: "nat \<Rightarrow> string \<Rightarrow> pyvalue \<Rightarrow> pyexn option"

text \<open>
  \<^verbatim>\<open>float(i)\<close> for an integer \<open>i\<close>, as the interpreter computes it: the nearest double,
  ties to the even significand, and \<^verbatim>\<open>OverflowError\<close> when that is not a finite double.
  \<open>bit_length\<close> is \<^verbatim>\<open>int.bit_length\<close>.
\<close>

fun bit_length :: "nat \<Rightarrow> nat" where
  "bit_length n = (if n = 0 then 0 else Suc (bit_length (n div 2)))"

declare bit_length.simps [simp del]

definition py_float :: "int \<Rightarrow> pyexn + pyfloat" where
  "py_float i =
     (let a = nat \<bar>i\<bar>; n = bit_length a
      in if a = 0 then Inr (Float64 False 0 0)
         else if n \<le> 53 then Inr (Float64 (i < 0) (n + 1022) (a * 2 ^ (53 - n) - 2 ^ 52))
         else (let k = n - 53; q = a div 2 ^ k; r = a mod 2 ^ k; half = 2 ^ (k - 1);
                   q' = (if half < r \<or> (r = half \<and> odd q) then q + 1 else q);
                   sig = (if q' = 2 ^ 53 then 2 ^ 52 else q');
                   n' = (if q' = 2 ^ 53 then n + 1 else n)
               in if 2047 \<le> n' + 1022 then Inl OverflowError
                  else Inr (Float64 (i < 0) (n' + 1022) (sig - 2 ^ 52))))"

text \<open>
  Calling a type on a value, \<^verbatim>\<open>fv[1](value)\<close>: \<^verbatim>\<open>float(i)\<close>, \<^verbatim>\<open>complex(i)\<close> and \<^verbatim>\<open>complex(f)\<close>
  are the conversions the table of \<^verbatim>\<open>TraitCoerceType\<close> leads to; any other call is left to
  the collaborator \<open>call_type\<close>.
\<close>

definition py_call :: "externals \<Rightarrow> pytype \<Rightarrow> pyvalue \<Rightarrow> pyexn + pyvalue" where
  "py_call ext T v =
     (case v of
        VInt i \<Rightarrow>
          (if T = TFloat
           then (case py_float i of Inl e \<Rightarrow> Inl e | Inr f \<Rightarrow> Inr (VFloat f))
           else if T = TComplex
           then (case py_float i of Inl e \<Rightarrow> Inl e | Inr f \<Rightarrow> Inr (VComplex f (Float64 False 0 0)))
           else call_type ext T v)
      | VFloat f \<Rightarrow>
          (if T = TComplex then Inr (VComplex f (Float64 False 0 0)) else call_type ext T v)
      | _ \<Rightarrow> call_type ext T v)"

text \<open>\<^verbatim>\<open>setattr(object, name, value)\<close>.\<close>

definition py_setattr :: "externals \<Rightarrow> store \<Rightarrow> nat \<Rightarrow> string \<Rightarrow> pyvalue \<Rightarrow> pyexn + store" where
  "py_setattr ext st object name v =
     (case setattr_raises ext object name v of
        Some e \<Rightarrow> Inl e
      | None \<Rightarrow> Inr (st\<lparr>attrs := (attrs st)((object, name) \<mapsto> v)\<rparr>))"

subsection \<open>TraitCoerceType\<close>

text \<open>
  \<^verbatim>\<open>__init__(self, aType)\<close>: the argument is a type (\<open>Inl\<close>) or an example value (\<open>Inr\<close>),
  which is replaced by its type.
\<close>

definition TraitCoerceType_init :: "pytype + pyvalue \<Rightarrow> handler" where
  "TraitCoerceType_init arg =
     (let aType = (case arg of Inl t \<Rightarrow> t | Inr v \<Rightarrow> type_of v)
      in TraitCoerceType aType
           (case CoercableTypes aType of
              Some fv \<Rightarrow> fv
            | None \<Rightarrow> FV VT_coerce [aType]))"

text \<open>
  \<^verbatim>\<open>validate\<close>: \<^verbatim>\<open>fv[1]\<close> is the target type, \<^verbatim>\<open>fv[2:]\<close> the types coerced to it; both
  tests are identity tests on \<^verbatim>\<open>type(value)\<close>.
\<close>

fun coercable_loop :: "externals \<Rightarrow> pytype \<Rightarrow> pytype list \<Rightarrow> pyvalue \<Rightarrow> (pyexn + pyvalue) option" where
  "coercable_loop ext target [] v = None"
| "coercable_loop ext target (typei # rest) v =
     (if type_of v = typei then Some (py_call ext target v)
      else coercable_loop ext target rest v)"

definition TraitCoerceType_validate ::
  "externals \<Rightarrow> fast_validate \<Rightarrow> nat \<Rightarrow> string \<Rightarrow> pyvalue \<Rightarrow> pyexn + pyvalue" where
  "TraitCoerceType_validate ext fv object name v =
     (case fv of
        FV k (target # coercable) \<Rightarrow>
          (if type_of v = target then Inr v
           else (case coercable_loop ext target coercable v of
                   Some r \<Rightarrow> r
                 | None \<Rightarrow> Inl (error object name v)))
      | _ \<Rightarrow> Inl IndexError)"

subsection \<open>TraitFunction and TraitEnum\<close>

text \<open>
  \<^verbatim>\<open>TraitFunction.validate\<close> turns a \<^verbatim>\<open>TraitError\<close> of the function into its own error and
  lets any other exception through.
\<close>

definition TraitFunction_validate ::
  "(nat \<Rightarrow> string \<Rightarrow> pyvalue \<Rightarrow> pyexn + pyvalue) \<Rightarrow> nat \<Rightarrow> string \<Rightarrow> pyvalue \<Rightarrow> pyexn + pyvalue" where
  "TraitFunction_validate f object name v =
     (case f object name v of
        Inr r \<Rightarrow> Inr r
      | Inl e \<Rightarrow> (if is_TraitError e then Inl (error object name v) else Inl e))"

text \<open>\<^verbatim>\<open>value in self.values\<close> on a tuple: some item equals the value.\<close>

definition py_in :: "pyvalue \<Rightarrow> pyvalue list \<Rightarrow> bool" where
  "py_in v vals = list_ex (\<lambda>x. py_eq x v) vals"

definition TraitEnum_validate :: "pyvalue list \<Rightarrow> nat \<Rightarrow> string \<Rightarrow> pyvalue \<Rightarrow> pyexn + pyvalue" where
  "TraitEnum_validate vals object name v =
     (if py_in v vals then Inr v else Inl (error object name v))"

subsection \<open>TraitPrefixList\<close>

text \<open>
  \<^verbatim>\<open>__init__\<close> copies the strings and fills a new cache dictionary with every string
  mapped to itself.
\<close>

definition init_cache :: "string list \<Rightarrow> (string \<rightharpoonup> string)" where
  "init_cache keys = fold (\<lambda>key c. c(key \<mapsto> key)) keys Map.empty"

definition TraitPrefixList_init :: "store \<Rightarrow> string list \<Rightarrow> handler \<times> store" where
  "TraitPrefixList_init st vals =
     (TraitPrefixList vals (next_id st),
      st\<lparr>next_id := next_id st + 1,
         caches := (caches st)(next_id st := init_cache vals)\<rparr>)"

text \<open>
  The \<^verbatim>\<open>for key in self.values\<close> loop of \<^verbatim>\<open>validate\<close>, with \<^verbatim>\<open>match\<close> as the accumulator:
  a second matching key resets \<^verbatim>\<open>match\<close> to \<^verbatim>\<open>None\<close> and leaves the loop.
\<close>

fun prefix_scan :: "string \<Rightarrow> string list \<Rightarrow> string option \<Rightarrow> string option" where
  "prefix_scan s [] match = match"
| "prefix_scan s (key # keys) match =
     (if s = take (length s) key
      then (case match of
              Some m \<Rightarrow> None
            | None \<Rightarrow> prefix_scan s keys (Some key))
      else prefix_scan s keys match)"

text \<open>
  \<^verbatim>\<open>validate\<close> of \<^verbatim>\<open>TraitPrefixList\<close> and of \<^verbatim>\<open>TraitPrefixMap\<close> (the same body, over
  \<^verbatim>\<open>self.values\<close> and \<^verbatim>\<open>self.map.keys()\<close>). The keys and the cache hold strings only, so a
  candidate that is not a string is never found in the cache and never equals a slice of
  a key: it ends in \<^verbatim>\<open>self.error\<close>, either through the \<^verbatim>\<open>TypeError\<close> of hashing or of
  \<^verbatim>\<open>len\<close>, caught by the bare \<^verbatim>\<open>except\<close>, or through \<^verbatim>\<open>match is None\<close>.
\<close>

definition prefix_validate ::
  "string list \<Rightarrow> nat \<Rightarrow> store \<Rightarrow> nat \<Rightarrow> string \<Rightarrow> pyvalue \<Rightarrow> (pyexn + pyvalue) \<times> store" where
  "prefix_validate keys cache st object name v =
     (case v of
        VStr s \<Rightarrow>
          (case caches st cache s of
             Some m \<Rightarrow> (Inr (VStr m), st)
           | None \<Rightarrow>
               (case prefix_scan s keys None of
                  None \<Rightarrow> (Inl (error object name v), st)
                | Some m \<Rightarrow>
                    (Inr (VStr m),
                     st\<lparr>caches := (caches st)(cache := (caches st cache)(s \<mapsto> m))\<rparr>)))
      | _ \<Rightarrow> (Inl (error object name v), st))"

subsection \<open>TraitMap and TraitPrefixMap\<close>

text \<open>
  A dictionary is the association list of its entries, no two keys of which are equal;
  \<^verbatim>\<open>value in d\<close> and \<^verbatim>\<open>d[value]\<close> raise \<^verbatim>\<open>TypeError\<close> on an unhashable value, find the
  entry whose key equals the value (equal values have equal hashes), and \<^verbatim>\<open>d[value]\<close>
  raises \<^verbatim>\<open>KeyError\<close> when there is none.
\<close>

definition dict_contains :: "(pyvalue \<times> pyvalue) list \<Rightarrow> pyvalue \<Rightarrow> pyexn + bool" where
  "dict_contains d v = (if hashable v then Inr (py_in v (map fst d)) else Inl TypeError)"

definition dict_getitem :: "(pyvalue \<times> pyvalue) list \<Rightarrow> pyvalue \<Rightarrow> pyexn + pyvalue" where
  "dict_getitem d v =
     (if hashable v
      then (case find (\<lambda>kx. py_eq (fst kx) v) d of
              Some kx \<Rightarrow> Inr (snd kx)
            | None \<Rightarrow> Inl KeyError)
      else Inl TypeError)"

definition TraitMap_validate :: "(pyvalue \<times> pyvalue) list \<Rightarrow> nat \<Rightarrow> string \<Rightarrow> pyvalue \<Rightarrow> pyexn + pyvalue" where
  "TraitMap_validate d object name v =
     (case dict_contains d v of
        Inr True \<Rightarrow> Inr v
      | _ \<Rightarrow> Inl (error object name v))"

definition mapped_value :: "(pyvalue \<times> pyvalue) list \<Rightarrow> pyvalue \<Rightarrow> pyexn + pyvalue" where
  "mapped_value d v = dict_getitem d v"

text \<open>
  \<^verbatim>\<open>TraitMap.post_setattr\<close>, inherited by \<^verbatim>\<open>TraitPrefixMap\<close>. The result is \<open>None\<close> for a
  normal return and \<open>Some e\<close> for the exception \<open>e\<close>.
\<close>

definition TraitMap_post_setattr ::
  "externals \<Rightarrow> (pyvalue \<times> pyvalue) list \<Rightarrow> store \<Rightarrow> nat \<Rightarrow> string \<Rightarrow> pyvalue \<Rightarrow> pyexn option \<times> store" where
  "TraitMap_post_setattr ext d st object name v =
     (case mapped_value d v of
        Inl e \<Rightarrow> (Some (TraitError Unmappable), st)
      | Inr mv \<Rightarrow>
          (case py_setattr ext st object (name @ ''_'') mv of
             Inl e \<Rightarrow> (Some (TraitError Unmappable), st)
           | Inr st' \<Rightarrow> (None, st')))"

definition str_keys :: "(string \<times> pyvalue) list \<Rightarrow> (pyvalue \<times> pyvalue) list" where
  "str_keys d = map (\<lambda>(k, x). (VStr k, x)) d"

definition TraitPrefixMap_init :: "store \<Rightarrow> (string \<times> pyvalue) list \<Rightarrow> handler \<times> store" where
  "TraitPrefixMap_init st d =
     (TraitPrefixMap d (next_id st),
      st\<lparr>next_id := next_id st + 1,
         caches := (caches st)(next_id st := init_cache (map fst d))\<rparr>)"

subsection \<open>Attributes read through getattr\<close>

text \<open>\<^verbatim>\<open>getattr(handler, "fast_validate", None)\<close>: \<^verbatim>\<open>TraitList\<close> and \<^verbatim>\<open>TraitDict\<close> set none.\<close>

fun fast_validate_of :: "handler \<Rightarrow> fast_validate option" where
  "fast_validate_of (TraitCoerceType t fv) = Some fv"
| "fast_validate_of (TraitFunction f) = Some (FVData VT_function)"
| "fast_validate_of (TraitEnum vals) = Some (FVData VT_enum)"
| "fast_validate_of (TraitPrefixList vals c) = Some (FVData VT_prefix_map)"
| "fast_validate_of (TraitMap d) = Some (FVData VT_map)"
| "fast_validate_of (TraitPrefixMap d c) = Some (FVData VT_prefix_map)"
| "fast_validate_of (TraitCompound hs im hi rv vs svs mh cfv ps) = cfv"
| "fast_validate_of (TraitTuple ts) = Some (FVData VT_tuple)"
| "fast_validate_of (TraitList i t lo hi) = None"
| "fast_validate_of (TraitDict i kt vt vh) = None"

text \<open>
  Modelled from the spec: \<^verbatim>\<open>is_mapped\<close> and \<^verbatim>\<open>has_items\<close> default to \<^verbatim>\<open>False\<close> in the base
  class (\<^verbatim>\<open>traits/trait_handler.py\<close>, not among the sources); \<^verbatim>\<open>TraitMap\<close> sets
  \<^verbatim>\<open>is_mapped = True\<close> for itself and \<^verbatim>\<open>TraitPrefixMap\<close>, a compound holds what
  \<^verbatim>\<open>set_validate\<close> computed.
\<close>

fun is_mapped :: "handler \<Rightarrow> bool" where
  "is_mapped (TraitMap d) = True"
| "is_mapped (TraitPrefixMap d c) = True"
| "is_mapped (TraitCompound hs im hi rv vs svs mh cfv ps) = im"
| "is_mapped h = False"

fun has_items :: "store \<Rightarrow> handler \<Rightarrow> bool" where
  "has_items st (TraitList i t lo hi) = has_items_attr st i"
| "has_items st (TraitDict i kt vt vh) = has_items_attr st i"
| "has_items st (TraitCompound hs im hi rv vs svs mh cfv ps) = hi"
| "has_items st h = False"

text \<open>\<^verbatim>\<open>getattr(handler, "post_setattr", None) is not None\<close>.\<close>

fun has_post_setattr :: "handler \<Rightarrow> bool" where
  "has_post_setattr (TraitMap d) = True"
| "has_post_setattr (TraitPrefixMap d c) = True"
| "has_post_setattr (TraitCompound hs im hi rv vs svs mh cfv ps) = (ps \<noteq> None)"
| "has_post_setattr h = False"

subsection \<open>TraitCompound\<close>

text \<open>The local variables of \<^verbatim>\<open>set_validate\<close> and the three flags it accumulates.\<close>

record sv_locals =
  sv_is_mapped :: bool
  sv_has_items :: bool
  sv_reversable :: bool
  sv_post_setattrs :: "handler list"
  sv_mapped_handlers :: "handler list"
  sv_validates :: "handler list"
  sv_fast_validates :: "fast_validate list"
  sv_slow_validates :: "handler list"

definition sv_start :: sv_locals where
  "sv_start =
     \<lparr>sv_is_mapped = False, sv_has_items = False, sv_reversable = True,
      sv_post_setattrs = [], sv_mapped_handlers = [], sv_validates = [],
      sv_fast_validates = [], sv_slow_validates = []\<rparr>"

text \<open>One pass of the body of \<^verbatim>\<open>for handler in self.handlers\<close>.\<close>

definition sv_step :: "store \<Rightarrow> handler \<Rightarrow> sv_locals \<Rightarrow> sv_locals" where
  "sv_step st h a =
     (let a1 = (case fast_validate_of h of
                  Some fv \<Rightarrow>
                    a\<lparr>sv_validates := sv_validates a @ [h],
                      sv_fast_validates :=
                        (case fv of
                           FVComplex inner \<Rightarrow> sv_fast_validates a @ inner
                         | _ \<Rightarrow> sv_fast_validates a @ [fv])\<rparr>
                | None \<Rightarrow> a\<lparr>sv_slow_validates := sv_slow_validates a @ [h]\<rparr>);
          a2 = (if has_post_setattr h
                then a1\<lparr>sv_post_setattrs := sv_post_setattrs a1 @ [h]\<rparr>
                else a1);
          a3 = (if is_mapped h
                then a2\<lparr>sv_is_mapped := True,
                        sv_mapped_handlers := sv_mapped_handlers a2 @ [h]\<rparr>
                else a2\<lparr>sv_reversable := False\<rparr>)
      in (if has_items st h then a3\<lparr>sv_has_items := True\<rparr> else a3))"

fun sv_loop :: "store \<Rightarrow> handler list \<Rightarrow> sv_locals \<Rightarrow> sv_locals" where
  "sv_loop st [] a = a"
| "sv_loop st (h # hs) a = sv_loop st hs (sv_step st h a)"

text \<open>
  \<^verbatim>\<open>__init__\<close> followed by \<^verbatim>\<open>set_validate\<close> on a new object: an attribute that
  \<^verbatim>\<open>set_validate\<close> leaves unset (\<^verbatim>\<open>mapped_handlers\<close>, \<^verbatim>\<open>fast_validate\<close>, \<^verbatim>\<open>post_setattr\<close>) is
  \<open>None\<close>.
\<close>

definition set_validate :: "store \<Rightarrow> handler list \<Rightarrow> handler" where
  "set_validate st hs =
     (let a = sv_loop st hs sv_start
      in TraitCompound hs
           (sv_is_mapped a)
           (sv_has_items a)
           (sv_reversable a)
           (sv_validates a)
           (sv_slow_validates a)
           (if sv_is_mapped a then Some (sv_mapped_handlers a) else None)
           (if length (sv_fast_validates a) > 0
            then Some (FVComplex
                   (if length (sv_slow_validates a) > 0
                    then sv_fast_validates a @ [FVSlow]
                    else sv_fast_validates a))
            else None)
           (if length (sv_post_setattrs a) > 0 then Some (sv_post_setattrs a) else None))"

definition TraitCompound_init :: "store \<Rightarrow> handler list \<Rightarrow> handler" where
  "TraitCompound_init st hs = set_validate st hs"

subsection \<open>TraitTuple, TraitList and TraitDict: construction\<close>

text \<open>
  \<^verbatim>\<open>trait_from\<close> (\<^verbatim>\<open>traits/trait_converters.py\<close>, not among the sources) returns a trait
  object unchanged; the constructors below take their arguments as trait objects.
\<close>

definition TraitTuple_init :: "ctrait list \<Rightarrow> handler" where
  "TraitTuple_init args = TraitTuple args"

text \<open>
  \<^verbatim>\<open>TraitList.__init__\<close>. The new object gets the identity \<open>next_id st\<close>; its \<^verbatim>\<open>has_items\<close>
  attribute is written to the store.
\<close>

definition TraitList_init :: "store \<Rightarrow> ctrait \<Rightarrow> int \<Rightarrow> int \<Rightarrow> bool \<Rightarrow> handler \<times> store" where
  "TraitList_init st trait minlen_arg maxlen_arg has_items_arg =
     (TraitList (next_id st) trait (max 0 minlen_arg) (max minlen_arg maxlen_arg),
      st\<lparr>next_id := next_id st + 1,
         has_items_attr := (has_items_attr st)(next_id st := has_items_arg)\<rparr>)"

text \<open>\<^verbatim>\<open>handler.has_items = False\<close> on a \<^verbatim>\<open>TraitList\<close> or \<^verbatim>\<open>TraitDict\<close> object.\<close>

fun set_has_items :: "store \<Rightarrow> handler \<Rightarrow> bool \<Rightarrow> store" where
  "set_has_items st (TraitList i t lo hi) b = st\<lparr>has_items_attr := (has_items_attr st)(i := b)\<rparr>"
| "set_has_items st (TraitDict i kt vt vh) b = st\<lparr>has_items_attr := (has_items_attr st)(i := b)\<rparr>"
| "set_has_items st h b = st"

text \<open>
  \<^verbatim>\<open>TraitDict.__init__\<close> and the two \<^verbatim>\<open>clone\<close> methods, which call the constructors again.
  A handler class other than \<^verbatim>\<open>TraitList\<close> and \<^verbatim>\<open>TraitDict\<close> defines no \<^verbatim>\<open>clone\<close> in this
  file, and a trait without a handler has no \<^verbatim>\<open>has_items\<close>: both raise
  \<^verbatim>\<open>AttributeError\<close>.
\<close>

fun TraitDict_init :: "store \<Rightarrow> ctrait \<Rightarrow> ctrait \<Rightarrow> bool \<Rightarrow> pyexn + handler \<times> store"
  and clone :: "store \<Rightarrow> handler \<Rightarrow> pyexn + handler \<times> store" where
  "TraitDict_init st key_trait_arg (CTrait None) has_items_arg = Inl AttributeError"
| "TraitDict_init st key_trait_arg (CTrait (Some h)) has_items_arg =
     (let self = next_id st;
          st1 = st\<lparr>next_id := next_id st + 1,
                   has_items_attr := (has_items_attr st)(next_id st := has_items_arg)\<rparr>
      in if has_items st1 h
         then (case clone st1 h of
                 Inl e \<Rightarrow> Inl e
               | Inr (c, st2) \<Rightarrow>
                   Inr (TraitDict self key_trait_arg (CTrait (Some h)) c,
                        set_has_items st2 c False))
         else Inr (TraitDict self key_trait_arg (CTrait (Some h)) h, st1))"
| "clone st (TraitList i t lo hi) = Inr (TraitList_init st t lo hi (has_items_attr st i))"
| "clone st (TraitDict i kt vt vh) = TraitDict_init st kt vt (has_items_attr st i)"
| "clone st (TraitCoerceType t fv) = Inl AttributeError"
| "clone st (TraitFunction f) = Inl AttributeError"
| "clone st (TraitEnum vals) = Inl AttributeError"
| "clone st (TraitPrefixList vals c) = Inl AttributeError"
| "clone st (TraitMap d) = Inl AttributeError"
| "clone st (TraitPrefixMap d c) = Inl AttributeError"
| "clone st (TraitCompound hs im hi rv vs svs mh cfv ps) = Inl AttributeError"
| "clone st (TraitTuple ts) = Inl AttributeError"

section \<open>validate\<close>

text \<open>
  \<open>validate\<close> is the method \<^verbatim>\<open>validate(self, object, name, value)\<close> of each class; it
  returns the value or the exception, and the store it leaves. \<open>validate_loop\<close> is the
  loop of \<^verbatim>\<open>TraitCompound.validate\<close> and of \<^verbatim>\<open>slow_validate\<close>: \<open>Some r\<close> when the loop is
  left by a \<^verbatim>\<open>return\<close> or by an exception that is not a \<^verbatim>\<open>TraitError\<close>, \<open>None\<close> when it
  runs to its end. \<open>validate_items\<close> is the loop of \<^verbatim>\<open>TraitTuple.validate\<close>.
\<close>

fun validate :: "externals \<Rightarrow> handler \<Rightarrow> store \<Rightarrow> nat \<Rightarrow> string \<Rightarrow> pyvalue \<Rightarrow> (pyexn + pyvalue) \<times> store"
  and validate_loop :: "externals \<Rightarrow> handler list \<Rightarrow> store \<Rightarrow> nat \<Rightarrow> string \<Rightarrow> pyvalue \<Rightarrow> (pyexn + pyvalue) option \<times> store"
  and validate_items :: "externals \<Rightarrow> ctrait list \<Rightarrow> pyvalue list \<Rightarrow> store \<Rightarrow> nat \<Rightarrow> string \<Rightarrow> (pyexn + pyvalue list) \<times> store"
  where
  "validate ext (TraitCoerceType t fv) st object name v =
     (TraitCoerceType_validate ext fv object name v, st)"
| "validate ext (TraitFunction f) st object name v =
     (TraitFunction_validate f object name v, st)"
| "validate ext (TraitEnum vals) st object name v =
     (TraitEnum_validate vals object name v, st)"
| "validate ext (TraitPrefixList vals c) st object name v =
     prefix_validate vals c st object name v"
| "validate ext (TraitMap d) st object name v =
     (TraitMap_validate d object name v, st)"
| "validate ext (TraitPrefixMap d c) st object name v =
     prefix_validate (map fst d) c st object name v"
| "validate ext (TraitCompound hs im hi rv vs svs mh cfv ps) st object name v =
     (case validate_loop ext vs st object name v of
        (Some r, st1) \<Rightarrow> (r, st1)
      | (None, st1) \<Rightarrow>
          (case validate_loop ext svs st1 object name v of
             (Some r, st2) \<Rightarrow> (r, st2)
           | (None, st2) \<Rightarrow> (Inl (error object name v), st2)))"
| "validate ext (TraitTuple ts) st object name v =
     (case v of
        VTuple xs \<Rightarrow>
          (if length xs = length ts
           then (case validate_items ext ts xs st object name of
                   (Inr rs, st1) \<Rightarrow> (Inr (VTuple rs), st1)
                 | (Inl e, st1) \<Rightarrow> (Inl (error object name v), st1))
           else (Inl (error object name v), st))
      | _ \<Rightarrow> (Inl (error object name v), st))"
| "validate ext (TraitList i t lo hi) st object name v =
     (case v of
        VList xs \<Rightarrow>
          (if lo \<le> int (length xs) \<and> int (length xs) \<le> hi
           then TraitListObject ext (TraitList i t lo hi) st object name xs
           else (Inl (error object name v), st))
      | _ \<Rightarrow> (Inl (error object name v), st))"
| "validate ext (TraitDict i kt vt vh) st object name v =
     (case v of
        VDict kvs \<Rightarrow> TraitDictObject ext (TraitDict i kt vt vh) st object name kvs
      | _ \<Rightarrow> (Inl (error object name v), st))"
| "validate_loop ext [] st object name v = (None, st)"
| "validate_loop ext (h # hs) st object name v =
     (case validate ext h st object name v of
        (Inr r, st1) \<Rightarrow> (Some (Inr r), st1)
      | (Inl e, st1) \<Rightarrow>
          (if is_TraitError e then validate_loop ext hs st1 object name v
           else (Some (Inl e), st1)))"
| "validate_items ext [] xs st object name = (Inr [], st)"
| "validate_items ext (t # ts) [] st object name = (Inl IndexError, st)"
| "validate_items ext (CTrait None # ts) (x # xs) st object name = (Inl AttributeError, st)"
| "validate_items ext (CTrait (Some h) # ts) (x # xs) st object name =
     (case validate ext h st object name x of
        (Inl e, st1) \<Rightarrow> (Inl e, st1)
      | (Inr r, st1) \<Rightarrow>
          (case validate_items ext ts xs st1 object name of
             (Inl e, st2) \<Rightarrow> (Inl e, st2)
           | (Inr rs, st2) \<Rightarrow> (Inr (r # rs), st2)))"

section \<open>post_setattr\<close>

text \<open>
  \<open>post_setattr\<close> is the hook \<^verbatim>\<open>post_setattr(object, name, value)\<close> of the handlers that
  have one; calling it on a handler without the attribute is an \<^verbatim>\<open>AttributeError\<close>.
  \<open>post_setattr_loop\<close> is the loop of \<^verbatim>\<open>TraitCompound._post_setattr\<close>: \<open>Some r\<close> when a
  hook returned (\<open>r = None\<close>) or raised something that is not a \<^verbatim>\<open>TraitError\<close>
  (\<open>r = Some e\<close>), \<open>None\<close> when the loop runs to its end.
\<close>

fun post_setattr :: "externals \<Rightarrow> handler \<Rightarrow> store \<Rightarrow> nat \<Rightarrow> string \<Rightarrow> pyvalue \<Rightarrow> pyexn option \<times> store"
  and post_setattr_loop :: "externals \<Rightarrow> handler list \<Rightarrow> store \<Rightarrow> nat \<Rightarrow> string \<Rightarrow> pyvalue \<Rightarrow> pyexn option option \<times> store"
  where
  "post_setattr ext (TraitMap d) st object name v =
     TraitMap_post_setattr ext d st object name v"
| "post_setattr ext (TraitPrefixMap d c) st object name v =
     TraitMap_post_setattr ext (str_keys d) st object name v"
| "post_setattr ext (TraitCompound hs im hi rv vs svs mh cfv (Some hooks)) st object name v =
     (case post_setattr_loop ext hooks st object name v of
        (Some r, st1) \<Rightarrow> (r, st1)
      | (None, st1) \<Rightarrow>
          (case py_setattr ext st1 object (name @ ''_'') v of
             Inl e \<Rightarrow> (Some e, st1)
           | Inr st2 \<Rightarrow> (None, st2)))"
| "post_setattr ext (TraitCompound hs im hi rv vs svs mh cfv None) st object name v =
     (Some AttributeError, st)"
| "post_setattr ext (TraitCoerceType t fv) st object name v = (Some AttributeError, st)"
| "post_setattr ext (TraitFunction f) st object name v = (Some AttributeError, st)"
| "post_setattr ext (TraitEnum vals) st object name v = (Some AttributeError, st)"
| "post_setattr ext (TraitPrefixList vals c) st object name v = (Some AttributeError, st)"
| "post_setattr ext (TraitTuple ts) st object name v = (Some AttributeError, st)"
| "post_setattr ext (TraitList i t lo hi) st object name v = (Some AttributeError, st)"
| "post_setattr ext (TraitDict i kt vt vh) st object name v = (Some AttributeError, st)"
| "post_setattr_loop ext [] st object name v = (None, st)"
| "post_setattr_loop ext (h # hs) st object name v =
     (case post_setattr ext h st object name v of
        (None, st1) \<Rightarrow> (Some None, st1)
      | (Some e, st1) \<Rightarrow>
          (if is_TraitError e then post_setattr_loop ext hs st1 object name v
           else (Some (Some e), st1)))"

section \<open>Derived notions used in the statements\<close>

text \<open>\<^verbatim>\<open>fv[2:]\<close> of a \<^verbatim>\<open>TraitCoerceType\<close>: the types its table lists as coercible.\<close>

definition coercable_types :: "handler \<Rightarrow> pytype list" where
  "coercable_types h = (case coerce_fv h of FV k (target # coercable) \<Rightarrow> coercable | _ \<Rightarrow> [])"

text \<open>
  The store in which the \<open>i\<close>-th handler of a list is called when all the earlier ones
  were called in turn, each in the store its predecessor left.
\<close>

fun store_before :: "externals \<Rightarrow> handler list \<Rightarrow> nat \<Rightarrow> store \<Rightarrow> nat \<Rightarrow> string \<Rightarrow> pyvalue \<Rightarrow> store" where
  "store_before ext hs 0 st object name v = st"
| "store_before ext [] (Suc i) st object name v = st"
| "store_before ext (h # hs) (Suc i) st object name v =
     store_before ext hs i (snd (validate ext h st object name v)) object name v"

text \<open>
  Calling the handler of a trait object: \<^verbatim>\<open>type.handler.validate(object, name, x)\<close>, an
  \<^verbatim>\<open>AttributeError\<close> when the trait has no handler.
\<close>

fun slot_validate :: "externals \<Rightarrow> ctrait \<Rightarrow> store \<Rightarrow> nat \<Rightarrow> string \<Rightarrow> pyvalue \<Rightarrow> (pyexn + pyvalue) \<times> store" where
  "slot_validate ext (CTrait None) st object name x = (Inl AttributeError, st)"
| "slot_validate ext (CTrait (Some h)) st object name x = validate ext h st object name x"

fun slot_store_before :: "externals \<Rightarrow> ctrait list \<Rightarrow> pyvalue list \<Rightarrow> nat \<Rightarrow> store \<Rightarrow> nat \<Rightarrow> string \<Rightarrow> store" where
  "slot_store_before ext ts xs 0 st object name = st"
| "slot_store_before ext (t # ts) (x # xs) (Suc i) st object name =
     slot_store_before ext ts xs i (snd (slot_validate ext t st object name x)) object name"
| "slot_store_before ext ts xs (Suc i) st object name = st"

section \<open>Sample collaborators\<close>

text \<open>
  A store with no object in it, and collaborators for the concrete runs below: no
  further type can be called, the observable containers keep the items they are given,
  and every attribute assignment is carried out.
\<close>

definition empty_store :: store where
  "empty_store =
     \<lparr>next_id = 0, has_items_attr = (\<lambda>i. False), caches = (\<lambda>i. Map.empty), attrs = (\<lambda>k. None)\<rparr>"

definition sample_call_type :: "pytype \<Rightarrow> pyvalue \<Rightarrow> pyexn + pyvalue" where
  "sample_call_type t v = Inl (Raised ''unsupported'')"

definition sample_ext :: externals where
  "sample_ext =
     \<lparr>call_type = sample_call_type,
      TraitListObject = (\<lambda>h st object name xs. (Inr (VList xs), st)),
      TraitDictObject = (\<lambda>h st object name kvs. (Inr (VDict kvs), st)),
      setattr_raises = (\<lambda>object name v. None)\<rparr>"

text \<open>
  An owner whose shadow attribute \<^verbatim>\<open>married_\<close> is itself validated and takes integers
  only: assigning anything else raises the validation error of that attribute.
\<close>

definition strict_shadow_ext :: externals where
  "strict_shadow_ext =
     sample_ext\<lparr>setattr_raises :=
       (\<lambda>object name v.
          if name = ''married_'' \<and> type_of v \<noteq> TInt
          then Some (error object name v) else None)\<rparr>"

text \<open>The handler of the class docstring of \<^verbatim>\<open>TraitPrefixList\<close>, built in a given store.\<close>

definition yes_no :: "store \<Rightarrow> handler \<times> store" where
  "yes_no st = TraitPrefixList_init st [''yes'', ''no'']"

text \<open>Whether an outcome is a raised \<^verbatim>\<open>TraitError\<close>.\<close>

fun raises_TraitError :: "pyexn + 'a \<Rightarrow> bool" where
  "raises_TraitError (Inl e) = is_TraitError e"
| "raises_TraitError (Inr r) = False"

fun hook_raises_TraitError :: "pyexn option \<Rightarrow> bool" where
  "hook_raises_TraitError (Some e) = is_TraitError e"
| "hook_raises_TraitError None = False"

text \<open>
  The order in which a compound built from \<open>hs\<close> tries its branches: the handlers with a
  fast-path descriptor, in the order of \<open>hs\<close>, then those without, in the order of \<open>hs\<close>.
  \<open>branch_outcome\<close> is what the \<open>i\<close>-th branch of a list answers when it is called after
  the earlier ones.
\<close>

definition try_order :: "handler list \<Rightarrow> handler list" where
  "try_order hs =
     filter (\<lambda>h. fast_validate_of h \<noteq> None) hs @ filter (\<lambda>h. fast_validate_of h = None) hs"

definition branch_outcome ::
  "externals \<Rightarrow> handler list \<Rightarrow> nat \<Rightarrow> store \<Rightarrow> nat \<Rightarrow> string \<Rightarrow> pyvalue \<Rightarrow> (pyexn + pyvalue) \<times> store" where
  "branch_outcome ext bs i st object name v =
     validate ext (bs ! i) (store_before ext bs i st object name v) object name v"

text \<open>What the \<open>i\<close>-th slot of a tuple handler answers for the \<open>i\<close>-th item.\<close>

definition slot_outcome ::
  "externals \<Rightarrow> ctrait list \<Rightarrow> pyvalue list \<Rightarrow> nat \<Rightarrow> store \<Rightarrow> nat \<Rightarrow> string \<Rightarrow> (pyexn + pyvalue) \<times> store" where
  "slot_outcome ext ts xs i st object name =
     slot_validate ext (ts ! i) (slot_store_before ext ts xs i st object name) object name (xs ! i)"

text \<open>The dictionary of the class docstring of \<^verbatim>\<open>TraitMap\<close>, and a list of three branches.\<close>

definition married_map :: "(pyvalue \<times> pyvalue) list" where
  "married_map = [(VStr ''yes'', VInt 1), (VStr ''no'', VInt 0)]"

definition letters :: "handler list" where
  "letters = [TraitList 0 (CTrait None) 0 5, TraitEnum [VStr ''a''], TraitEnum [VStr ''a'', VStr ''b'']]"

text \<open>The slots of a playing card: an integer rank and one of four suits.\<close>

definition card_slots :: "ctrait list" where
  "card_slots =
     [CTrait (Some (TraitCoerceType_init (Inl TInt))),
      CTrait (Some (TraitEnum [VStr ''H'', VStr ''D'', VStr ''S'', VStr ''C'']))]"

text \<open>The handlers of a list that have a \<^verbatim>\<open>post_setattr\<close> hook, in order.\<close>

definition hooks_of :: "handler list \<Rightarrow> handler list" where
  "hooks_of hs = filter has_post_setattr hs"

text \<open>
  A compound nested in a compound, both with a \<^verbatim>\<open>TraitMap\<close> branch, for the attribute
  \<^verbatim>\<open>married\<close>.
\<close>

definition nested :: "handler list" where
  "nested =
     [TraitCompound_init empty_store [TraitMap [(VStr ''a'', VInt 1)]],
      TraitMap [(VStr ''x'', VInt 1)]]"








section \<open>Properties of TraitCoerceType\<close>

lemma coerce_init_cases:
  "TraitCoerceType_init arg =
     (let T = (case arg of Inl t \<Rightarrow> t | Inr x \<Rightarrow> type_of x)
      in TraitCoerceType T
        (if T = TFloat then FV VT_coerce [TFloat, TInt]
         else if T = TComplex then FV VT_coerce [TComplex, TFloat, TInt]
         else FV VT_coerce [T]))"
  by (cases "case arg of Inl t \<Rightarrow> t | Inr x \<Rightarrow> type_of x")
     (simp_all add: TraitCoerceType_init_def Let_def)












text \<open>
  Claim C10. The test on the candidate's type is identity, not subclass membership: a
  candidate whose type differs from \<open>T\<close> and is not in the table of \<open>T\<close> raises the
  validation error, also when its type is a subclass of \<open>T\<close>; \<^verbatim>\<open>bool\<close> is a subclass of
  \<^verbatim>\<open>int\<close>, and the int handler rejects every boolean.
\<close>

theorem C10_coerce_exact_type:
  "(type_of v \<noteq> T \<and> type_of v \<notin> set (coercable_types (TraitCoerceType_init (Inl T)))
      \<longrightarrow> validate ext (TraitCoerceType_init (Inl T)) st object name v
           = (Inl (TraitError (Invalid object name v)), st))
   \<and> (issubclass (type_of v) T \<and> type_of v \<noteq> T
        \<and> type_of v \<notin> set (coercable_types (TraitCoerceType_init (Inl T)))
      \<longrightarrow> validate ext (TraitCoerceType_init (Inl T)) st object name v
           = (Inl (TraitError (Invalid object name v)), st))
   \<and> issubclass TBool TInt
   \<and> validate ext (TraitCoerceType_init (Inl TInt)) st object name (VBool b)
       = (Inl (TraitError (Invalid object name (VBool b))), st)"
  by (simp add: coerce_init_cases Let_def TraitCoerceType_validate_def error_def
        coercable_types_def)

theorem C10_coerce_exact_type_witness:
  "issubclass (type_of (VBool True)) TInt \<and> type_of (VBool True) \<noteq> TInt
   \<and> type_of (VBool True) \<notin> set (coercable_types (TraitCoerceType_init (Inl TInt)))
   \<and> validate sample_ext (TraitCoerceType_init (Inl TInt)) empty_store 7 ''count'' (VBool True)
       = (Inl (TraitError (Invalid 7 ''count'' (VBool True))), empty_store)"
  using C10_coerce_exact_type [of "VBool True" TInt sample_ext empty_store 7 "''count''" True]
  by (simp add: coercable_types_def coerce_init_cases)

section \<open>Properties of TraitCompound.set_validate\<close>

lemma sv_step_fields:
  "sv_is_mapped (sv_step st h a) = (sv_is_mapped a \<or> is_mapped h)"
  "sv_reversable (sv_step st h a) = (sv_reversable a \<and> is_mapped h)"
  "sv_validates (sv_step st h a) = sv_validates a @ (if fast_validate_of h \<noteq> None then [h] else [])"
  "sv_slow_validates (sv_step st h a) = sv_slow_validates a @ (if fast_validate_of h = None then [h] else [])"
  "sv_post_setattrs (sv_step st h a) = sv_post_setattrs a @ (if has_post_setattr h then [h] else [])"
  by (auto simp: sv_step_def Let_def split: option.splits fast_validate.splits)

lemma sv_loop_fields:
  "sv_is_mapped (sv_loop st hs a) = (sv_is_mapped a \<or> list_ex is_mapped hs)"
  "sv_reversable (sv_loop st hs a) = (sv_reversable a \<and> list_all is_mapped hs)"
  "sv_validates (sv_loop st hs a) = sv_validates a @ filter (\<lambda>h. fast_validate_of h \<noteq> None) hs"
  "sv_slow_validates (sv_loop st hs a) = sv_slow_validates a @ filter (\<lambda>h. fast_validate_of h = None) hs"
  "sv_post_setattrs (sv_loop st hs a) = sv_post_setattrs a @ filter has_post_setattr hs"
  by (induction hs arbitrary: a; simp add: sv_step_fields; blast?)+

lemma compound_fields:
  "compound_is_mapped (TraitCompound_init st hs) = list_ex is_mapped hs"
  "reversable (TraitCompound_init st hs) = list_all is_mapped hs"
  "validates (TraitCompound_init st hs) = filter (\<lambda>h. fast_validate_of h \<noteq> None) hs"
  "slow_validates (TraitCompound_init st hs) = filter (\<lambda>h. fast_validate_of h = None) hs"
  "post_setattrs (TraitCompound_init st hs) =
     (if filter has_post_setattr hs = [] then None else Some (filter has_post_setattr hs))"
  "handlers (TraitCompound_init st hs) = hs"
  "is_mapped (TraitCompound_init st hs) = list_ex is_mapped hs"
  "has_post_setattr (TraitCompound_init st hs) = list_ex has_post_setattr hs"
  by (simp_all add: TraitCompound_init_def set_validate_def Let_def sv_loop_fields sv_start_def
        filter_empty_conv list_ex_iff)

text \<open>
  Claim C2. After construction from the handlers \<open>hs\<close>, the compound's \<^verbatim>\<open>is_mapped\<close> holds
  exactly when some handler of \<open>hs\<close> is mapped, and its \<^verbatim>\<open>reversable\<close> holds exactly when
  every handler of \<open>hs\<close> is mapped. A compound of two \<^verbatim>\<open>TraitMap\<close>s is reversable; a
  compound of a \<^verbatim>\<open>TraitMap\<close> and a \<^verbatim>\<open>TraitEnum\<close> is mapped and not reversable.
\<close>

theorem C2_compound_mapped_reversable:
  "is_mapped (TraitCompound_init st hs) = list_ex is_mapped hs
   \<and> reversable (TraitCompound_init st hs) = list_all is_mapped hs
   \<and> reversable (TraitCompound_init st [TraitMap d1, TraitMap d2])
   \<and> is_mapped (TraitCompound_init st [TraitMap d, TraitEnum vals])
   \<and> \<not> reversable (TraitCompound_init st [TraitMap d, TraitEnum vals])"
  by (simp add: compound_fields)

section \<open>Properties of TraitList\<close>

text \<open>
  Claim C8. The stored minimum is never negative, but the stored maximum is the larger
  of the two arguments as given, so it is at least the stored minimum only when one of
  the arguments is not negative. For \<^verbatim>\<open>minlen=-5, maxlen=-3\<close> the handler stores the
  bounds 0 and -3 and rejects every list, while its \<^verbatim>\<open>clone\<close>, which passes the stored
  bounds through the constructor again, stores 0 and 0.
\<close>

theorem C8_TraitList_negative_bounds:
  "minlen (fst (TraitList_init st t (-5) (-3) b)) = 0
   \<and> maxlen (fst (TraitList_init st t (-5) (-3) b)) = -3
   \<and> fst (validate ext (fst (TraitList_init st t (-5) (-3) b)) st' object name (VList xs))
       = Inl (TraitError (Invalid object name (VList xs)))
   \<and> (case clone (snd (TraitList_init st t (-5) (-3) b)) (fst (TraitList_init st t (-5) (-3) b)) of
        Inr (c, st2) \<Rightarrow> minlen c = 0 \<and> maxlen c = 0
      | Inl e \<Rightarrow> False)
   \<and> 0 \<le> minlen (fst (TraitList_init st t lo hi b))
   \<and> (minlen (fst (TraitList_init st t lo hi b)) \<le> maxlen (fst (TraitList_init st t lo hi b)))
       = (0 \<le> lo \<or> 0 \<le> hi)"
  by (auto simp: TraitList_init_def error_def)

section \<open>Properties of TraitPrefixList\<close>

lemma prefix_scan_Some:
  "prefix_scan s keys (Some k) =
     (if filter (\<lambda>key. s = take (length s) key) keys = [] then Some k else None)"
  by (induction keys) auto

lemma prefix_scan_None:
  "prefix_scan s keys None =
     (case filter (\<lambda>key. s = take (length s) key) keys of [m] \<Rightarrow> Some m | _ \<Rightarrow> None)"
  by (induction keys) (auto simp: prefix_scan_Some split: list.splits)

text \<open>
  Claim C3. For a string candidate that is not in the cache, \<^verbatim>\<open>TraitPrefixList.validate\<close>
  compares the candidate with the slice of its own length of every full string: when
  exactly one entry of the tuple matches, that full string is stored in the cache under
  the candidate and returned; when none or more than one matches, the validation error
  is raised and the cache is left as it was. For the handler built from \<^verbatim>\<open>'yes', 'no'\<close>,
  \<^verbatim>\<open>'y'\<close>, \<^verbatim>\<open>'ye'\<close> and \<^verbatim>\<open>'yes'\<close> give \<^verbatim>\<open>'yes'\<close>, \<^verbatim>\<open>'n'\<close> and \<^verbatim>\<open>'no'\<close> give \<^verbatim>\<open>'no'\<close>, and the
  empty string is rejected.
\<close>

theorem C3_prefix_list_validate:
  "(caches st c s = None \<longrightarrow>
      validate ext (TraitPrefixList vals c) st object name (VStr s) =
        (case filter (\<lambda>key. s = take (length s) key) vals of
           [m] \<Rightarrow> (Inr (VStr m), st\<lparr>caches := (caches st)(c := (caches st c)(s \<mapsto> m))\<rparr>)
         | _ \<Rightarrow> (Inl (TraitError (Invalid object name (VStr s))), st)))
   \<and> fst (validate ext (fst (yes_no st0)) (snd (yes_no st0)) object name (VStr ''y'')) = Inr (VStr ''yes'')
   \<and> fst (validate ext (fst (yes_no st0)) (snd (yes_no st0)) object name (VStr ''ye'')) = Inr (VStr ''yes'')
   \<and> fst (validate ext (fst (yes_no st0)) (snd (yes_no st0)) object name (VStr ''yes'')) = Inr (VStr ''yes'')
   \<and> fst (validate ext (fst (yes_no st0)) (snd (yes_no st0)) object name (VStr ''n'')) = Inr (VStr ''no'')
   \<and> fst (validate ext (fst (yes_no st0)) (snd (yes_no st0)) object name (VStr ''no'')) = Inr (VStr ''no'')
   \<and> fst (validate ext (fst (yes_no st0)) (snd (yes_no st0)) object name (VStr ''''))
       = Inl (TraitError (Invalid object name (VStr '''')))"
proof -
  have general: "caches st c s = None \<longrightarrow>
      validate ext (TraitPrefixList vals c) st object name (VStr s) =
        (case filter (\<lambda>key. s = take (length s) key) vals of
           [m] \<Rightarrow> (Inr (VStr m), st\<lparr>caches := (caches st)(c := (caches st c)(s \<mapsto> m))\<rparr>)
         | _ \<Rightarrow> (Inl (TraitError (Invalid object name (VStr s))), st))"
    by (auto simp: prefix_validate_def prefix_scan_None error_def split: list.splits)
  have examples: "fst (validate ext (fst (yes_no st0)) (snd (yes_no st0)) object name (VStr ''y'')) = Inr (VStr ''yes'')"
    "fst (validate ext (fst (yes_no st0)) (snd (yes_no st0)) object name (VStr ''ye'')) = Inr (VStr ''yes'')"
    "fst (validate ext (fst (yes_no st0)) (snd (yes_no st0)) object name (VStr ''yes'')) = Inr (VStr ''yes'')"
    "fst (validate ext (fst (yes_no st0)) (snd (yes_no st0)) object name (VStr ''n'')) = Inr (VStr ''no'')"
    "fst (validate ext (fst (yes_no st0)) (snd (yes_no st0)) object name (VStr ''no'')) = Inr (VStr ''no'')"
    "fst (validate ext (fst (yes_no st0)) (snd (yes_no st0)) object name (VStr ''''))
       = Inl (TraitError (Invalid object name (VStr '''')))"
    by (simp_all add: yes_no_def TraitPrefixList_init_def prefix_validate_def init_cache_def error_def)
  from general examples show ?thesis by blast
qed

theorem C3_prefix_list_validate_witness:
  "caches (snd (yes_no empty_store)) 0 ''ye'' = None
   \<and> validate sample_ext (TraitPrefixList [''yes'', ''no''] 0) (snd (yes_no empty_store)) 7 ''married'' (VStr ''ye'')
     = (Inr (VStr ''yes''),
        (snd (yes_no empty_store))\<lparr>caches := (caches (snd (yes_no empty_store)))
           (0 := (caches (snd (yes_no empty_store)) 0)(''ye'' \<mapsto> ''yes''))\<rparr>)"
  using C3_prefix_list_validate [of "snd (yes_no empty_store)" 0 "''ye''" sample_ext "[''yes'', ''no'']" 7 "''married''"]
  by (simp add: yes_no_def TraitPrefixList_init_def init_cache_def empty_store_def)

section \<open>Properties of TraitMap\<close>







section \<open>Properties of TraitCompound.validate\<close>

lemma validate_loop_append:
  "validate_loop ext (xs @ ys) st object name v =
     (case validate_loop ext xs st object name v of
        (Some r, st1) \<Rightarrow> (Some r, st1)
      | (None, st1) \<Rightarrow> validate_loop ext ys st1 object name v)"
  by (induction xs arbitrary: st) (auto split: prod.splits sum.splits)

lemma branch_outcome_0:
  "branch_outcome ext (h # hs) 0 st object name v = validate ext h st object name v"
  by (simp add: branch_outcome_def)

lemma branch_outcome_Suc:
  "branch_outcome ext (h # hs) (Suc i) st object name v =
     branch_outcome ext hs i (snd (validate ext h st object name v)) object name v"
  by (simp add: branch_outcome_def)

lemma validate_loop_all_fail:
  "(\<forall>j<length bs. raises_TraitError (fst (branch_outcome ext bs j st object name v)))
   \<Longrightarrow> validate_loop ext bs st object name v
       = (None, store_before ext bs (length bs) st object name v)"
proof (induction bs arbitrary: st)
  case Nil
  then show ?case by simp
next
  case (Cons h hs)
  from Cons.prems have h0: "raises_TraitError (fst (validate ext h st object name v))"
    using branch_outcome_0 by (metis length_greater_0_conv list.distinct(1))
  have rest: "\<forall>j<length hs. raises_TraitError
      (fst (branch_outcome ext hs j (snd (validate ext h st object name v)) object name v))"
  proof (intro allI impI)
    fix j assume "j < length hs"
    then have "Suc j < length (h # hs)" by simp
    with Cons.prems show "raises_TraitError
      (fst (branch_outcome ext hs j (snd (validate ext h st object name v)) object name v))"
      using branch_outcome_Suc by metis
  qed
  from Cons.IH [OF rest] h0 show ?case
    by (cases "validate ext h st object name v") (auto split: sum.splits)
qed

lemma validate_loop_first:
  "i < length bs
   \<Longrightarrow> (\<forall>j<i. raises_TraitError (fst (branch_outcome ext bs j st object name v)))
   \<Longrightarrow> \<not> raises_TraitError (fst (branch_outcome ext bs i st object name v))
   \<Longrightarrow> validate_loop ext bs st object name v
       = (Some (fst (branch_outcome ext bs i st object name v)),
          snd (branch_outcome ext bs i st object name v))"
proof (induction bs arbitrary: st i)
  case Nil
  then show ?case by simp
next
  case (Cons h hs)
  show ?case
  proof (cases i)
    case 0
    with Cons.prems(3) show ?thesis
      by (cases "validate ext h st object name v")
         (auto simp: branch_outcome_0 split: sum.splits)
  next
    case (Suc k)
    from Cons.prems(2) Suc have h0: "raises_TraitError (fst (validate ext h st object name v))"
      using branch_outcome_0 by (metis zero_less_Suc)
    let ?st1 = "snd (validate ext h st object name v)"
    have k: "k < length hs" using Cons.prems(1) Suc by simp
    have before: "\<forall>j<k. raises_TraitError (fst (branch_outcome ext hs j ?st1 object name v))"
    proof (intro allI impI)
      fix j assume "j < k"
      then have "Suc j < i" using Suc by simp
      with Cons.prems(2) show "raises_TraitError (fst (branch_outcome ext hs j ?st1 object name v))"
        using branch_outcome_Suc by metis
    qed
    have at: "\<not> raises_TraitError (fst (branch_outcome ext hs k ?st1 object name v))"
      using Cons.prems(3) Suc by (simp add: branch_outcome_Suc)
    from Cons.IH [OF k before at] h0 Suc show ?thesis
      by (cases "validate ext h st object name v")
         (auto simp: branch_outcome_Suc split: sum.splits)
  qed
qed

lemma compound_validate_unfold:
  "validate ext (TraitCompound_init st0 hs) st object name v =
     (case validate_loop ext (try_order hs) st object name v of
        (Some r, st1) \<Rightarrow> (r, st1)
      | (None, st1) \<Rightarrow> (Inl (error object name v), st1))"
  by (simp add: TraitCompound_init_def set_validate_def Let_def sv_loop_fields sv_start_def
        try_order_def validate_loop_append split: prod.splits option.splits)

text \<open>
  Claim C1. A compound built from the handlers \<open>hs\<close> keeps, in the order of \<open>hs\<close>, those
  with a fast-path descriptor in \<^verbatim>\<open>validates\<close> and those without in \<^verbatim>\<open>slow_validates\<close>.
  Its \<open>validate\<close> calls them in that order, each in the store the earlier ones left: the
  outcome of the first branch that does not raise a \<^verbatim>\<open>TraitError\<close> is the outcome of the
  compound (so of several accepting branches the earliest in that order decides), and
  when every branch raises a \<^verbatim>\<open>TraitError\<close> the compound raises the validation error.
\<close>

theorem C1_compound_validate:
  "validates (TraitCompound_init st0 hs) = filter (\<lambda>h. fast_validate_of h \<noteq> None) hs
   \<and> slow_validates (TraitCompound_init st0 hs) = filter (\<lambda>h. fast_validate_of h = None) hs
   \<and> (i < length (try_order hs)
        \<and> (\<forall>j<i. raises_TraitError (fst (branch_outcome ext (try_order hs) j st object name v)))
        \<and> \<not> raises_TraitError (fst (branch_outcome ext (try_order hs) i st object name v))
      \<longrightarrow> validate ext (TraitCompound_init st0 hs) st object name v
           = branch_outcome ext (try_order hs) i st object name v)
   \<and> ((\<forall>j<length (try_order hs).
          raises_TraitError (fst (branch_outcome ext (try_order hs) j st object name v)))
      \<longrightarrow> fst (validate ext (TraitCompound_init st0 hs) st object name v)
           = Inl (TraitError (Invalid object name v)))"
proof (intro conjI impI)
  show "validates (TraitCompound_init st0 hs) = filter (\<lambda>h. fast_validate_of h \<noteq> None) hs"
    by (simp add: compound_fields)
  show "slow_validates (TraitCompound_init st0 hs) = filter (\<lambda>h. fast_validate_of h = None) hs"
    by (simp add: compound_fields)
next
  assume a: "i < length (try_order hs)
        \<and> (\<forall>j<i. raises_TraitError (fst (branch_outcome ext (try_order hs) j st object name v)))
        \<and> \<not> raises_TraitError (fst (branch_outcome ext (try_order hs) i st object name v))"
  then have "validate_loop ext (try_order hs) st object name v
       = (Some (fst (branch_outcome ext (try_order hs) i st object name v)),
          snd (branch_outcome ext (try_order hs) i st object name v))"
    using validate_loop_first by blast
  then show "validate ext (TraitCompound_init st0 hs) st object name v
           = branch_outcome ext (try_order hs) i st object name v"
    by (simp add: compound_validate_unfold)
next
  assume "\<forall>j<length (try_order hs).
          raises_TraitError (fst (branch_outcome ext (try_order hs) j st object name v))"
  then have "validate_loop ext (try_order hs) st object name v
       = (None, store_before ext (try_order hs) (length (try_order hs)) st object name v)"
    by (rule validate_loop_all_fail)
  then show "fst (validate ext (TraitCompound_init st0 hs) st object name v)
           = Inl (TraitError (Invalid object name v))"
    by (simp add: compound_validate_unfold error_def)
qed

lemma letters_order:
  "try_order letters = [TraitEnum [VStr ''a''], TraitEnum [VStr ''a'', VStr ''b''], TraitList 0 (CTrait None) 0 5]"
  by (simp add: letters_def try_order_def)

theorem C1_compound_validate_witness:
  "1 < length (try_order letters)
   \<and> raises_TraitError (fst (branch_outcome sample_ext (try_order letters) 0 empty_store 7 ''x'' (VStr ''b'')))
   \<and> \<not> raises_TraitError (fst (branch_outcome sample_ext (try_order letters) 1 empty_store 7 ''x'' (VStr ''b'')))
   \<and> validate sample_ext (TraitCompound_init empty_store letters) empty_store 7 ''x'' (VStr ''b'')
       = (Inr (VStr ''b''), empty_store)
   \<and> raises_TraitError (fst (branch_outcome sample_ext (try_order letters) 0 empty_store 7 ''x'' (VInt 3)))
   \<and> raises_TraitError (fst (branch_outcome sample_ext (try_order letters) 1 empty_store 7 ''x'' (VInt 3)))
   \<and> raises_TraitError (fst (branch_outcome sample_ext (try_order letters) 2 empty_store 7 ''x'' (VInt 3)))
   \<and> fst (validate sample_ext (TraitCompound_init empty_store letters) empty_store 7 ''x'' (VInt 3))
       = Inl (TraitError (Invalid 7 ''x'' (VInt 3)))"
  using C1_compound_validate [of empty_store letters 1 sample_ext empty_store 7 "''x''" "VStr ''b''"]
        C1_compound_validate [of empty_store letters 1 sample_ext empty_store 7 "''x''" "VInt 3"]
  by (simp add: letters_order branch_outcome_def TraitEnum_validate_def py_in_def error_def
        less_Suc_eq numeral_3_eq_3 numeral_2_eq_2 all_conj_distrib)

section \<open>Properties of TraitTuple\<close>

lemma slot_outcome_0:
  "slot_outcome ext (t # ts) (x # xs) 0 st object name = slot_validate ext t st object name x"
  by (simp add: slot_outcome_def)

lemma slot_outcome_Suc:
  "slot_outcome ext (t # ts) (x # xs) (Suc i) st object name =
     slot_outcome ext ts xs i (snd (slot_validate ext t st object name x)) object name"
  by (simp add: slot_outcome_def)

lemma validate_items_Cons:
  "validate_items ext (t # ts) (x # xs) st object name =
     (case slot_validate ext t st object name x of
        (Inl e, st1) \<Rightarrow> (Inl e, st1)
      | (Inr r, st1) \<Rightarrow>
          (case validate_items ext ts xs st1 object name of
             (Inl e, st2) \<Rightarrow> (Inl e, st2)
           | (Inr rs, st2) \<Rightarrow> (Inr (r # rs), st2)))"
  by (cases t; cases "handler_of t") (auto split: prod.splits sum.splits)

lemma validate_items_ok:
  "length xs = length ts
   \<Longrightarrow> fst (validate_items ext ts xs st object name) = Inr rs
   \<Longrightarrow> length rs = length ts
       \<and> (\<forall>i<length ts. fst (slot_outcome ext ts xs i st object name) = Inr (rs ! i))"
proof (induction ts arbitrary: xs st rs)
  case Nil
  then show ?case by simp
next
  case (Cons t ts)
  then obtain x xs' where xs: "xs = x # xs'" by (cases xs) auto
  obtain r0 st1 where s0: "slot_validate ext t st object name x = (r0, st1)" by fastforce
  from Cons.prems(2) xs s0 obtain r where r: "r0 = Inr r"
    by (cases r0) (auto simp: validate_items_Cons)
  obtain q st2 where rest: "validate_items ext ts xs' st1 object name = (q, st2)" by fastforce
  from Cons.prems(2) xs s0 r rest obtain rs' where q: "q = Inr rs'" and rs: "rs = r # rs'"
    by (cases q) (auto simp: validate_items_Cons)
  from Cons.prems(1) xs have len: "length xs' = length ts" by simp
  from rest q have "fst (validate_items ext ts xs' st1 object name) = Inr rs'" by simp
  from Cons.IH [OF len this]
  have ih: "length rs' = length ts"
    "\<forall>i<length ts. fst (slot_outcome ext ts xs' i st1 object name) = Inr (rs' ! i)" by auto
  show ?case
  proof (intro conjI allI impI)
    show "length rs = length (t # ts)" using ih rs by simp
  next
    fix i assume "i < length (t # ts)"
    then show "fst (slot_outcome ext (t # ts) xs i st object name) = Inr (rs ! i)"
      using ih xs s0 r rs by (cases i) (auto simp: slot_outcome_0 slot_outcome_Suc)
  qed
qed

lemma validate_items_fail:
  "length xs = length ts
   \<Longrightarrow> fst (validate_items ext ts xs st object name) = Inl e
   \<Longrightarrow> \<exists>i<length ts. isl (fst (slot_outcome ext ts xs i st object name))"
proof (induction ts arbitrary: xs st)
  case Nil
  then show ?case by simp
next
  case (Cons t ts)
  then obtain x xs' where xs: "xs = x # xs'" by (cases xs) auto
  obtain r0 st1 where s0: "slot_validate ext t st object name x = (r0, st1)" by fastforce
  show ?case
  proof (cases r0)
    case (Inl e0)
    with s0 xs have "isl (fst (slot_outcome ext (t # ts) xs 0 st object name))"
      by (simp add: slot_outcome_0)
    then show ?thesis by auto
  next
    case (Inr r)
    obtain q st2 where rest: "validate_items ext ts xs' st1 object name = (q, st2)" by fastforce
    from Cons.prems(2) xs s0 Inr rest have "fst (validate_items ext ts xs' st1 object name) = Inl e"
      by (cases q) (auto simp: validate_items_Cons)
    moreover from Cons.prems(1) xs have "length xs' = length ts" by simp
    ultimately obtain i where "i < length ts"
      "isl (fst (slot_outcome ext ts xs' i st1 object name))"
      using Cons.IH by blast
    then have "Suc i < length (t # ts)"
      "isl (fst (slot_outcome ext (t # ts) xs (Suc i) st object name))"
      using xs s0 by (auto simp: slot_outcome_Suc)
    then show ?thesis by blast
  qed
qed

text \<open>
  Claim C7. \<^verbatim>\<open>TraitTuple.validate\<close> raises the validation error for a candidate that is
  not a tuple and for a tuple whose length is not the number of slots. For a tuple of
  the right length it succeeds exactly when every slot's handler accepts the item at
  its position (each called in the store the earlier slots left); the value returned is
  then the tuple of what the slots returned, item by item. Every failure is the
  validation error for the whole candidate: no partial tuple is returned.
\<close>

theorem C7_tuple_validate:
  "((\<forall>xs. v \<noteq> VTuple xs) \<longrightarrow>
       validate ext (TraitTuple_init ts) st object name v
         = (Inl (TraitError (Invalid object name v)), st))
   \<and> (length xs \<noteq> length ts \<longrightarrow>
       validate ext (TraitTuple_init ts) st object name (VTuple xs)
         = (Inl (TraitError (Invalid object name (VTuple xs))), st))
   \<and> (length xs = length ts \<longrightarrow>
       (\<not> isl (fst (validate ext (TraitTuple_init ts) st object name (VTuple xs))))
         = (\<forall>i<length ts. \<not> isl (fst (slot_outcome ext ts xs i st object name))))
   \<and> (fst (validate ext (TraitTuple_init ts) st object name (VTuple xs)) = Inr r \<longrightarrow>
       (\<exists>rs. r = VTuple rs \<and> length rs = length ts
          \<and> (\<forall>i<length ts. fst (slot_outcome ext ts xs i st object name) = Inr (rs ! i))))
   \<and> (isl (fst (validate ext (TraitTuple_init ts) st object name v)) \<longrightarrow>
       fst (validate ext (TraitTuple_init ts) st object name v)
         = Inl (TraitError (Invalid object name v)))"
proof (intro conjI impI)
  assume "\<forall>xs. v \<noteq> VTuple xs"
  then show "validate ext (TraitTuple_init ts) st object name v
         = (Inl (TraitError (Invalid object name v)), st)"
    by (cases v) (simp_all add: TraitTuple_init_def error_def)
next
  assume "length xs \<noteq> length ts"
  then show "validate ext (TraitTuple_init ts) st object name (VTuple xs)
         = (Inl (TraitError (Invalid object name (VTuple xs))), st)"
    by (simp add: TraitTuple_init_def error_def)
next
  assume len: "length xs = length ts"
  obtain q st1 where items: "validate_items ext ts xs st object name = (q, st1)" by fastforce
  show "(\<not> isl (fst (validate ext (TraitTuple_init ts) st object name (VTuple xs))))
         = (\<forall>i<length ts. \<not> isl (fst (slot_outcome ext ts xs i st object name)))"
  proof (cases q)
    case (Inl e)
    with items have "fst (validate_items ext ts xs st object name) = Inl e" by simp
    from validate_items_fail [OF len this] Inl items len show ?thesis
      by (auto simp: TraitTuple_init_def)
  next
    case (Inr rs)
    with items have "fst (validate_items ext ts xs st object name) = Inr rs" by simp
    from validate_items_ok [OF len this] Inr items len show ?thesis
      by (auto simp: TraitTuple_init_def)
  qed
next
  assume ok: "fst (validate ext (TraitTuple_init ts) st object name (VTuple xs)) = Inr r"
  then have len: "length xs = length ts"
    by (auto simp: TraitTuple_init_def split: if_splits)
  obtain q st1 where items: "validate_items ext ts xs st object name = (q, st1)" by fastforce
  with ok len obtain rs where q: "q = Inr rs" and r: "r = VTuple rs"
    by (cases q) (auto simp: TraitTuple_init_def)
  from items q have "fst (validate_items ext ts xs st object name) = Inr rs" by simp
  from validate_items_ok [OF len this] r
  show "\<exists>rs. r = VTuple rs \<and> length rs = length ts
          \<and> (\<forall>i<length ts. fst (slot_outcome ext ts xs i st object name) = Inr (rs ! i))"
    by blast
next
  assume "isl (fst (validate ext (TraitTuple_init ts) st object name v))"
  then show "fst (validate ext (TraitTuple_init ts) st object name v)
         = Inl (TraitError (Invalid object name v))"
    by (cases v)
       (auto simp: TraitTuple_init_def error_def split: if_splits prod.splits sum.splits)
qed

theorem C7_tuple_validate_witness:
  "(\<forall>xs. VInt 5 \<noteq> VTuple xs)
   \<and> validate sample_ext (TraitTuple_init card_slots) empty_store 7 ''card'' (VInt 5)
       = (Inl (TraitError (Invalid 7 ''card'' (VInt 5))), empty_store)
   \<and> length [VInt 5, VStr ''H'', VStr ''H''] \<noteq> length card_slots
   \<and> validate sample_ext (TraitTuple_init card_slots) empty_store 7 ''card''
        (VTuple [VInt 5, VStr ''H'', VStr ''H''])
       = (Inl (TraitError (Invalid 7 ''card'' (VTuple [VInt 5, VStr ''H'', VStr ''H'']))), empty_store)
   \<and> length [VInt 5, VStr ''H''] = length card_slots
   \<and> \<not> isl (fst (slot_outcome sample_ext card_slots [VInt 5, VStr ''H''] 0 empty_store 7 ''card''))
   \<and> \<not> isl (fst (slot_outcome sample_ext card_slots [VInt 5, VStr ''H''] 1 empty_store 7 ''card''))
   \<and> fst (validate sample_ext (TraitTuple_init card_slots) empty_store 7 ''card''
        (VTuple [VInt 5, VStr ''H''])) = Inr (VTuple [VInt 5, VStr ''H''])
   \<and> isl (fst (slot_outcome sample_ext card_slots [VInt 5, VStr ''Z''] 1 empty_store 7 ''card''))
   \<and> isl (fst (validate sample_ext (TraitTuple_init card_slots) empty_store 7 ''card''
        (VTuple [VInt 5, VStr ''Z''])))
   \<and> fst (validate sample_ext (TraitTuple_init card_slots) empty_store 7 ''card''
        (VTuple [VInt 5, VStr ''Z'']))
       = Inl (TraitError (Invalid 7 ''card'' (VTuple [VInt 5, VStr ''Z''])))"
  using C7_tuple_validate [where v="VInt 5" and ext=sample_ext and ts=card_slots
          and st=empty_store and object=7 and name="''card''"
          and xs="[VInt 5, VStr ''H'', VStr ''H'']"]
        C7_tuple_validate [where v="VTuple [VInt 5, VStr ''H'']" and ext=sample_ext and ts=card_slots
          and st=empty_store and object=7 and name="''card''"
          and xs="[VInt 5, VStr ''H'']" and r="VTuple [VInt 5, VStr ''H'']"]
        C7_tuple_validate [where v="VTuple [VInt 5, VStr ''Z'']" and ext=sample_ext and ts=card_slots
          and st=empty_store and object=7 and name="''card''"
          and xs="[VInt 5, VStr ''Z'']"]
  by (simp add: card_slots_def slot_outcome_def TraitTuple_init_def coerce_init_cases
        TraitCoerceType_validate_def TraitEnum_validate_def py_in_def error_def
        less_Suc_eq numeral_2_eq_2 all_conj_distrib)

section \<open>Properties of TraitCompound.post_setattr\<close>

lemma post_setattr_fail_store:
  "fst (post_setattr ext h st object name v) \<noteq> None \<longrightarrow>
     snd (post_setattr ext h st object name v) = st"
  "fst (post_setattr_loop ext hs st object name v) \<noteq> Some None \<longrightarrow>
     snd (post_setattr_loop ext hs st object name v) = st"
proof (induction ext h st object name v and ext hs st object name v
       rule: post_setattr_post_setattr_loop.induct)
  case (1 ext d st object name v)
  then show ?case
    by (auto simp: TraitMap_post_setattr_def split: sum.splits)
next
  case (2 ext d c st object name v)
  then show ?case
    by (auto simp: TraitMap_post_setattr_def split: sum.splits)
next
  case (3 ext hs im hi rv vs svs mh cfv hooks st object name v)
  then show ?case
    by (auto simp: py_setattr_def split: prod.splits option.splits sum.splits)
next
  case (13 ext h hs st object name v)
  then show ?case
    by (auto split: prod.splits option.splits if_splits)
qed simp_all

lemma hook_loop_all_fail:
  "(\<forall>j<length hooks. hook_raises_TraitError (fst (post_setattr ext (hooks ! j) st object name v)))
   \<Longrightarrow> post_setattr_loop ext hooks st object name v = (None, st)"
proof (induction hooks)
  case Nil
  then show ?case by simp
next
  case (Cons h hs)
  from Cons.prems have h0: "hook_raises_TraitError (fst (post_setattr ext h st object name v))"
    by (metis length_greater_0_conv list.distinct(1) nth_Cons_0)
  then have st: "snd (post_setattr ext h st object name v) = st"
    using post_setattr_fail_store(1) by (cases "fst (post_setattr ext h st object name v)") auto
  have "\<forall>j<length hs. hook_raises_TraitError (fst (post_setattr ext (hs ! j) st object name v))"
    using Cons.prems by (metis Suc_less_eq length_Cons nth_Cons_Suc)
  moreover from h0 obtain e where "fst (post_setattr ext h st object name v) = Some e" "is_TraitError e"
    by (cases "fst (post_setattr ext h st object name v)") auto
  ultimately show ?case using Cons.IH st
    by (cases "post_setattr ext h st object name v") auto
qed

lemma hook_loop_first:
  "i < length hooks
   \<Longrightarrow> (\<forall>j<i. hook_raises_TraitError (fst (post_setattr ext (hooks ! j) st object name v)))
   \<Longrightarrow> \<not> hook_raises_TraitError (fst (post_setattr ext (hooks ! i) st object name v))
   \<Longrightarrow> post_setattr_loop ext hooks st object name v
       = (Some (fst (post_setattr ext (hooks ! i) st object name v)),
          snd (post_setattr ext (hooks ! i) st object name v))"
proof (induction hooks arbitrary: i)
  case Nil
  then show ?case by simp
next
  case (Cons h hs)
  show ?case
  proof (cases i)
    case 0
    with Cons.prems(3) show ?thesis
      by (cases "post_setattr ext h st object name v") (auto split: option.splits)
  next
    case (Suc k)
    from Cons.prems(2) Suc have h0: "hook_raises_TraitError (fst (post_setattr ext h st object name v))"
      by (metis nth_Cons_0 zero_less_Suc)
    then have st: "snd (post_setattr ext h st object name v) = st"
      using post_setattr_fail_store(1) by (cases "fst (post_setattr ext h st object name v)") auto
    have k: "k < length hs" using Cons.prems(1) Suc by simp
    have before: "\<forall>j<k. hook_raises_TraitError (fst (post_setattr ext (hs ! j) st object name v))"
      using Cons.prems(2) Suc by (metis Suc_less_eq nth_Cons_Suc)
    have at: "\<not> hook_raises_TraitError (fst (post_setattr ext (hs ! k) st object name v))"
      using Cons.prems(3) Suc by simp
    from h0 obtain e where "fst (post_setattr ext h st object name v) = Some e" "is_TraitError e"
      by (cases "fst (post_setattr ext h st object name v)") auto
    with Cons.IH [OF k before at] st Suc show ?thesis
      by (cases "post_setattr ext h st object name v") auto
  qed
qed

lemma compound_post_setattr_unfold:
  "hooks_of hs \<noteq> [] \<Longrightarrow>
   post_setattr ext (TraitCompound_init st0 hs) st object name v =
     (case post_setattr_loop ext (hooks_of hs) st object name v of
        (Some r, st1) \<Rightarrow> (r, st1)
      | (None, st1) \<Rightarrow>
          (case py_setattr ext st1 object (name @ ''_'') v of
             Inl e \<Rightarrow> (Some e, st1)
           | Inr st2 \<Rightarrow> (None, st2)))"
  by (simp add: TraitCompound_init_def set_validate_def Let_def sv_loop_fields sv_start_def
        hooks_of_def)

text \<open>
  Claim C5, as the code has it. The compound has a \<^verbatim>\<open>post_setattr\<close> hook exactly when one
  of its handlers has one. The hook calls the handlers' hooks in order and stops at the
  first that does not raise a \<^verbatim>\<open>TraitError\<close>, whose outcome is the compound's; a
  \<^verbatim>\<open>TraitError\<close> of any kind, \<^verbatim>\<open>"Unmappable"\<close> or not, makes it go on to the next hook.
  When every hook raises a \<^verbatim>\<open>TraitError\<close>, the compound assigns the value as it is to the
  attribute named by the validated attribute's name followed by an underscore.
\<close>

theorem C5_compound_post_setattr:
  "has_post_setattr (TraitCompound_init st0 hs) = list_ex has_post_setattr hs
   \<and> (i < length (hooks_of hs)
        \<and> (\<forall>j<i. hook_raises_TraitError (fst (post_setattr ext (hooks_of hs ! j) st object name v)))
        \<and> \<not> hook_raises_TraitError (fst (post_setattr ext (hooks_of hs ! i) st object name v))
      \<longrightarrow> post_setattr ext (TraitCompound_init st0 hs) st object name v
           = post_setattr ext (hooks_of hs ! i) st object name v)
   \<and> (hooks_of hs \<noteq> []
        \<and> (\<forall>j<length (hooks_of hs).
             hook_raises_TraitError (fst (post_setattr ext (hooks_of hs ! j) st object name v)))
      \<longrightarrow> post_setattr ext (TraitCompound_init st0 hs) st object name v
           = (case setattr_raises ext object (name @ ''_'') v of
                None \<Rightarrow> (None, st\<lparr>attrs := (attrs st)((object, name @ ''_'') \<mapsto> v)\<rparr>)
              | Some e \<Rightarrow> (Some e, st)))"
proof (intro conjI impI)
  show "has_post_setattr (TraitCompound_init st0 hs) = list_ex has_post_setattr hs"
    by (simp add: compound_fields)
next
  assume a: "i < length (hooks_of hs)
        \<and> (\<forall>j<i. hook_raises_TraitError (fst (post_setattr ext (hooks_of hs ! j) st object name v)))
        \<and> \<not> hook_raises_TraitError (fst (post_setattr ext (hooks_of hs ! i) st object name v))"
  then have ne: "hooks_of hs \<noteq> []" by auto
  from a have "post_setattr_loop ext (hooks_of hs) st object name v
       = (Some (fst (post_setattr ext (hooks_of hs ! i) st object name v)),
          snd (post_setattr ext (hooks_of hs ! i) st object name v))"
    using hook_loop_first by blast
  then show "post_setattr ext (TraitCompound_init st0 hs) st object name v
           = post_setattr ext (hooks_of hs ! i) st object name v"
    by (simp add: compound_post_setattr_unfold [OF ne])
next
  assume a: "hooks_of hs \<noteq> []
        \<and> (\<forall>j<length (hooks_of hs).
             hook_raises_TraitError (fst (post_setattr ext (hooks_of hs ! j) st object name v)))"
  then have "post_setattr_loop ext (hooks_of hs) st object name v = (None, st)"
    using hook_loop_all_fail by blast
  with a show "post_setattr ext (TraitCompound_init st0 hs) st object name v
           = (case setattr_raises ext object (name @ ''_'') v of
                None \<Rightarrow> (None, st\<lparr>attrs := (attrs st)((object, name @ ''_'') \<mapsto> v)\<rparr>)
              | Some e \<Rightarrow> (Some e, st))"
    by (simp add: compound_post_setattr_unfold py_setattr_def split: option.splits)
qed

lemma strict_raises:
  "setattr_raises strict_shadow_ext object name v =
     (if name = ''married_'' \<and> type_of v \<noteq> TInt then Some (error object name v) else None)"
  by (simp add: strict_shadow_ext_def sample_ext_def)

lemma sample_raises: "setattr_raises sample_ext object name v = None"
  by (simp add: sample_ext_def)

lemma nested_hooks: "hooks_of nested = nested"
  by (simp add: hooks_of_def nested_def compound_fields)

lemma inner_hook:
  "post_setattr strict_shadow_ext (TraitCompound_init empty_store [TraitMap [(VStr ''a'', VInt 1)]])
     empty_store 7 ''married'' (VStr ''x'')
   = (Some (TraitError (Invalid 7 ''married_'' (VStr ''x''))), empty_store)"
  by (simp add: TraitCompound_init_def set_validate_def Let_def sv_start_def sv_step_def
        TraitMap_post_setattr_def mapped_value_def dict_getitem_def py_setattr_def
        strict_raises sample_raises error_def)

lemma nested_nth:
  "nested ! 0 = TraitCompound_init empty_store [TraitMap [(VStr ''a'', VInt 1)]]"
  "nested ! 1 = TraitMap [(VStr ''x'', VInt 1)]"
  "nested ! Suc 0 = TraitMap [(VStr ''x'', VInt 1)]"
  "length nested = 2"
  by (simp_all add: nested_def)

lemma single_hook: "hooks_of [TraitMap d] = [TraitMap d]"
  by (simp add: hooks_of_def)

theorem C5_compound_post_setattr_witness:
  "1 < length (hooks_of nested)
   \<and> hook_raises_TraitError (fst (post_setattr strict_shadow_ext (hooks_of nested ! 0) empty_store 7 ''married'' (VStr ''x'')))
   \<and> \<not> hook_raises_TraitError (fst (post_setattr strict_shadow_ext (hooks_of nested ! 1) empty_store 7 ''married'' (VStr ''x'')))
   \<and> post_setattr strict_shadow_ext (TraitCompound_init empty_store nested) empty_store 7 ''married'' (VStr ''x'')
       = (None, empty_store\<lparr>attrs := (attrs empty_store)((7, ''married_'') \<mapsto> VInt 1)\<rparr>)
   \<and> hooks_of [TraitMap married_map] \<noteq> []
   \<and> hook_raises_TraitError (fst (post_setattr sample_ext (hooks_of [TraitMap married_map] ! 0) empty_store 7 ''married'' (VStr ''maybe'')))
   \<and> post_setattr sample_ext (TraitCompound_init empty_store [TraitMap married_map]) empty_store 7 ''married'' (VStr ''maybe'')
       = (None, empty_store\<lparr>attrs := (attrs empty_store)((7, ''married_'') \<mapsto> VStr ''maybe'')\<rparr>)"
  using C5_compound_post_setattr [of empty_store nested 1 strict_shadow_ext empty_store 7 "''married''" "VStr ''x''"]
        C5_compound_post_setattr [of empty_store "[TraitMap married_map]" 0 sample_ext empty_store 7 "''married''" "VStr ''maybe''"]
  by (simp add: nested_hooks nested_nth inner_hook single_hook married_map_def
        TraitMap_post_setattr_def mapped_value_def dict_getitem_def py_setattr_def
        strict_raises sample_raises error_def)

text \<open>
  Claim C5 as stated fails. The owner validates its shadow attribute \<^verbatim>\<open>married_\<close> and
  takes integers only. The first hook of the outer compound is the hook of the nested
  compound: its \<^verbatim>\<open>TraitMap\<close> does not know \<^verbatim>\<open>'x'\<close>, so it assigns \<^verbatim>\<open>'x'\<close> itself, which raises
  the validation error of \<^verbatim>\<open>married_\<close>, not \<^verbatim>\<open>"Unmappable"\<close>. The outer compound does not
  stop there: it goes on to the second hook, which assigns 1.
\<close>

theorem C5_stops_at_first_non_unmappable_counterexample:
  "hooks_of nested = nested
   \<and> fst (post_setattr strict_shadow_ext (nested ! 0) empty_store 7 ''married'' (VStr ''x''))
       = Some (TraitError (Invalid 7 ''married_'' (VStr ''x'')))
   \<and> fst (post_setattr strict_shadow_ext (nested ! 0) empty_store 7 ''married'' (VStr ''x''))
       \<noteq> Some (TraitError Unmappable)
   \<and> post_setattr strict_shadow_ext (TraitCompound_init empty_store nested) empty_store 7 ''married'' (VStr ''x'')
       = (None, empty_store\<lparr>attrs := (attrs empty_store)((7, ''married_'') \<mapsto> VInt 1)\<rparr>)
   \<and> post_setattr strict_shadow_ext (TraitCompound_init empty_store nested) empty_store 7 ''married'' (VStr ''x'')
       \<noteq> post_setattr strict_shadow_ext (nested ! 0) empty_store 7 ''married'' (VStr ''x'')"
proof -
  have whole: "post_setattr strict_shadow_ext (TraitCompound_init empty_store nested) empty_store 7 ''married'' (VStr ''x'')
       = (None, empty_store\<lparr>attrs := (attrs empty_store)((7, ''married_'') \<mapsto> VInt 1)\<rparr>)"
  proof -
    have ne: "hooks_of nested \<noteq> []" unfolding nested_hooks by (simp add: nested_def)
    show ?thesis
      by (simp add: compound_post_setattr_unfold [OF ne] nested_hooks)
         (simp add: nested_def inner_hook TraitMap_post_setattr_def mapped_value_def
            dict_getitem_def py_setattr_def strict_raises error_def)
  qed
  show ?thesis
    by (simp add: whole nested_hooks nested_nth inner_hook)
qed

section \<open>Properties of TraitDict construction\<close>


















end
